theory Spec2Isabelle
  imports Main "HOL-Library.Word"
begin

unbundle bit_operations_syntax

section \<open>Go values shared by the packages\<close>

text \<open>
  A byte slice is a list of characters (\<open>char\<close> is a byte). A Go \<open>error\<close> value
  is the message it carries; \<open>errors.New msg\<close> is \<open>Error msg\<close>. A nil byte slice
  and a nil error are \<open>None\<close>.
\<close>

type_synonym bytes = string

datatype error = Error string

text \<open>
  How a Go function ends: it returns a value, the process is terminated by
  \<open>utils.Err\<close>, or a runtime panic (a failed type assertion, a nil dereference) unwinds it.
\<close>

datatype 'a outcome = Returned 'a | Fatal error | Panic string

section \<open>Package http: the retrying client\<close>

text \<open>
  \<open>http.Response\<close>, reduced to what \<open>performRequest\<close> reads: the status code and what
  \<open>ioutil.ReadAll (response.Body)\<close> yields, an error or the bytes of the body.
\<close>

record http_Response =
  StatusCode :: int
  Body :: "error + bytes"

text \<open>The two results of \<open>client.Do\<close>: a transport error or a response.\<close>

datatype do_result = DoErr error | DoResp http_Response

text \<open>The struct the error body is decoded into.\<close>

record errorResponse =
  Messages :: "string list"
  Success :: bool

text \<open>
  What one run does to the outside world, in order: calls of \<open>client.Do\<close> and calls of
  \<open>time.Sleep\<close> (in milliseconds).
\<close>

datatype event = Do | Sleep nat

text \<open>
  The state the closure passed to \<open>retry\<close> shares with \<open>performRequest\<close>: the events so
  far and the captured variable \<open>response\<close>.
\<close>

record req_state =
  events :: "event list"
  response :: "http_Response option"

definition isSuccess :: "int \<Rightarrow> bool" where
  "isSuccess statusCode = (statusCode \<ge> 200 \<and> statusCode \<le> 299)"

definition isRetry :: "int \<Rightarrow> bool" where
  "isRetry statusCode =
     ((statusCode = 429) \<or> (statusCode \<ge> 100 \<and> statusCode \<le> 199)
      \<or> (statusCode \<ge> 500 \<and> statusCode \<le> 599))"

text \<open>
  The error a retried function returns: wrapped in \<open>StopRetry\<close> or plain. A nil error is
  \<open>None\<close>.
\<close>

datatype retry_error = StopRetry error | Plain error

text \<open>
  The closure of \<open>performRequest\<close> (lines 141 to 167). The server is a function from
  the index of the attempt (the number of earlier \<open>client.Do\<close> calls) to what that
  attempt yields.
\<close>

definition attempt :: "(nat \<Rightarrow> do_result) \<Rightarrow> req_state \<Rightarrow> retry_error option \<times> req_state" where
  "attempt client_Do st =
     (let st1 = st\<lparr>events := events st @ [Do]\<rparr> in
      case client_Do (count_list (events st) Do) of
        DoErr err \<Rightarrow> (Some (StopRetry err), st1)
      | DoResp resp \<Rightarrow>
          (let st2 = st1\<lparr>response := Some resp\<rparr> in
           if isSuccess (StatusCode resp) then (None, st2)
           else if isRetry (StatusCode resp) then (Some (Plain (Error ''Request failed'')), st2)
           else (Some (StopRetry (Error ''Request failed'')), st2)))"

text \<open>
  Modelled from the spec: the helper \<open>retry\<close> and the wrapper type \<open>StopRetry\<close> of
  package http are called by \<open>performRequest\<close> but are not among the source files. The
  spec (4.2, 5): up to \<open>attempts\<close> attempts, strictly sequential; an attempt that
  succeeds stops the loop with success; an error that must not be retried (the closure
  wraps it in \<open>StopRetry\<close>) stops the loop at once and is the result; any other error is
  retried after the fixed delay while attempts remain, and is the result once they are
  used up.
\<close>

fun retry :: "nat \<Rightarrow> nat \<Rightarrow> (req_state \<Rightarrow> retry_error option \<times> req_state) \<Rightarrow> req_state
    \<Rightarrow> error option \<times> req_state" where
  "retry 0 sleep f st =
     (case f st of
        (None, st') \<Rightarrow> (None, st')
      | (Some (StopRetry e), st') \<Rightarrow> (Some e, st')
      | (Some (Plain e), st') \<Rightarrow> (Some e, st'))"
| "retry (Suc n) sleep f st =
     (case f st of
        (None, st') \<Rightarrow> (None, st')
      | (Some (StopRetry e), st') \<Rightarrow> (Some e, st')
      | (Some (Plain e), st') \<Rightarrow>
          (if n > 0 then retry n sleep f (st'\<lparr>events := events st' @ [Sleep sleep]\<rparr>)
           else (Some e, st')))"

text \<open>
  The loop of lines 192 to 198: a newline before every message but the first. The
  index \<open>i\<close> and the builder \<open>sb\<close> are the loop's variables.
\<close>

fun write_messages :: "nat \<Rightarrow> string list \<Rightarrow> string \<Rightarrow> string" where
  "write_messages i [] sb = sb"
| "write_messages i (message # rest) sb =
     write_messages (Suc i) rest ((if i \<noteq> 0 then sb @ [CHR 0x0A] else sb) @ message)"

text \<open>
  What the spec says of the message: the entries joined with newlines.
\<close>

fun joined_with_newlines :: "string list \<Rightarrow> string" where
  "joined_with_newlines [] = []"
| "joined_with_newlines [m] = m"
| "joined_with_newlines (m # ms) = m @ [CHR 0x0A] @ joined_with_newlines ms"

text \<open>
  Lines 169 to 200 of \<open>performRequest\<close>: what is returned for the error of the retry
  loop and the captured response. \<open>json_Unmarshal\<close> is \<open>encoding/json\<close>'s decoding of the
  body into an \<open>errorResponse\<close>, a parameter. Reading the body of a nil response is a
  nil dereference.
\<close>

definition finishRequest :: "(bytes \<Rightarrow> error + errorResponse) \<Rightarrow> error option
    \<Rightarrow> http_Response option \<Rightarrow> (int \<times> bytes option \<times> error option) outcome" where
  "finishRequest json_Unmarshal requestErr resp0 =
     (if requestErr \<noteq> None \<and> resp0 = None then Returned (0, None, requestErr)
      else case resp0 of
        None \<Rightarrow> Panic ''invalid memory address or nil pointer dereference''
      | Some resp \<Rightarrow>
          (case Body resp of
             Inl err \<Rightarrow> Returned (StatusCode resp, None, Some err)
           | Inr body \<Rightarrow>
               (if requestErr = None then Returned (StatusCode resp, Some body, None)
                else case json_Unmarshal body of
                  Inl err \<Rightarrow> Returned (StatusCode resp, None, Some err)
                | Inr errResponse \<Rightarrow>
                    Returned (StatusCode resp, Some body,
                      Some (Error (write_messages 0 (Messages errResponse) []))))))"

text \<open>
  \<open>performRequest\<close> from the retry loop on (the headers, the query and the client's
  timeout and TLS settings shape what \<open>client.Do\<close> does and are part of the server
  function). The result comes with the events of the run.
\<close>

definition performRequest :: "(bytes \<Rightarrow> error + errorResponse) \<Rightarrow> (nat \<Rightarrow> do_result)
    \<Rightarrow> (int \<times> bytes option \<times> error option) outcome \<times> event list" where
  "performRequest json_Unmarshal client_Do =
     (case retry 5 100 (attempt client_Do) \<lparr>events = [], response = None\<rparr> of
        (requestErr, st) \<Rightarrow> (finishRequest json_Unmarshal requestErr (response st), events st))"

section \<open>Package cmd: the run command\<close>

text \<open>
  The values of \<open>localConfig\<close> that \<open>getSecrets\<close> passes on.
\<close>

record ScopedConfig =
  Key :: string
  Project :: string
  Config :: string

text \<open>
  \<open>os.FileMode\<close> is a \<open>uint32\<close>; the permission bits are its low nine bits (0600 octal
  is 384, 0644 is 420, 077 is 63).
\<close>

type_synonym FileMode = "32 word"

text \<open>
  What \<open>getSecrets\<close> does to the outside world, in order: the call of
  \<open>api.GetDeploySecrets\<close> (the only network access), reads and writes of files (a write
  with its payload and its permission bits) and lines printed.
\<close>

datatype io_event =
    NetworkCall string string string
  | ReadFile string
  | WriteFile string bytes FileMode
  | Println string

text \<open>
  Where a call of \<open>ioutil.WriteFile\<close> fails, if it does: when it opens the file, or when
  it writes to the file it has opened.
\<close>

datatype write_fault = OpenFails error | WriteFails error

fun fault_error :: "write_fault \<Rightarrow> error" where
  "fault_error (OpenFails err) = err"
| "fault_error (WriteFails err) = err"

text \<open>
  The outside world: what \<open>ioutil.ReadFile\<close> yields at each path, the mode of the file
  at each path (\<open>None\<close> where no file exists), the umask of the process, where
  \<open>ioutil.WriteFile\<close> fails at a path (if it does), and the events so far.
\<close>

record world =
  fs_read :: "string \<Rightarrow> error + bytes"
  fs_mode :: "string \<Rightarrow> FileMode option"
  umask :: FileMode
  fs_write_fault :: "string \<Rightarrow> write_fault option"
  trace :: "io_event list"

definition log_event :: "io_event \<Rightarrow> world \<Rightarrow> world" where
  "log_event ev w = w\<lparr>trace := trace w @ [ev]\<rparr>"

fun is_network_call :: "io_event \<Rightarrow> bool" where
  "is_network_call (NetworkCall k p c) = True"
| "is_network_call ev = False"

fun is_file_read :: "io_event \<Rightarrow> bool" where
  "is_file_read (ReadFile path) = True"
| "is_file_read ev = False"


text \<open>\<open>ioutil.ReadFile\<close> on this world.\<close>

definition ioutil_ReadFile :: "string \<Rightarrow> world \<Rightarrow> (error + bytes) \<times> world" where
  "ioutil_ReadFile path w = (fs_read w path, log_event (ReadFile path) w)"

text \<open>
  \<open>ioutil.WriteFile\<close> is the standard library's; as its documentation has it: "If the
  file does not exist, WriteFile creates it with permissions perm (before umask);
  otherwise WriteFile truncates it before writing, without changing permissions." It is
  two steps on the file system. The first is
  \<open>os.OpenFile (filename, O_WRONLY|O_CREATE|O_TRUNC, perm)\<close>: the file is created with
  the bits of \<open>perm\<close> that the umask leaves, or an existing file keeps its mode; either
  way it is empty afterwards. The second writes the data into the open file.
\<close>

definition os_OpenFile_trunc :: "string \<Rightarrow> FileMode \<Rightarrow> world \<Rightarrow> world" where
  "os_OpenFile_trunc path perm w =
     w\<lparr>fs_read := (fs_read w)(path := Inr []),
       fs_mode := (fs_mode w)(path :=
         Some (case fs_mode w path of None \<Rightarrow> perm AND NOT (umask w) | Some m \<Rightarrow> m))\<rparr>"

definition file_Write :: "string \<Rightarrow> bytes \<Rightarrow> world \<Rightarrow> world" where
  "file_Write path data w = w\<lparr>fs_read := (fs_read w)(path := Inr data)\<rparr>"


text \<open>
  The call as its caller sees it: the error, and the world it leaves. A call that fails
  at the open leaves the files as they were; one that fails at the write leaves the file
  created or truncated.
\<close>

definition ioutil_WriteFile :: "string \<Rightarrow> bytes \<Rightarrow> FileMode \<Rightarrow> world \<Rightarrow> error option \<times> world" where
  "ioutil_WriteFile path data perm w =
     (let w1 = log_event (WriteFile path data perm) w in
      case fs_write_fault w path of
        Some (OpenFails err) \<Rightarrow> (Some err, w1)
      | Some (WriteFails err) \<Rightarrow> (Some err, os_OpenFile_trunc path perm w1)
      | None \<Rightarrow> (None, file_Write path data (os_OpenFile_trunc path perm w1)))"

text \<open>
  Modelled from the spec: \<open>utils.Err\<close> is called throughout but package utils is not
  among the source files. The spec (7, 9): errors are reported "fatal-and-exit", the
  message is printed and the invocation terminates with a non-zero status. Nothing after
  the call runs, so the function that calls it ends as \<open>Fatal\<close> with that error.
\<close>

definition utils_Err :: "error \<Rightarrow> world \<Rightarrow> 'a outcome \<times> world" where
  "utils_Err err w = (Fatal err, w)"

text \<open>
  \<open>readFallbackFile\<close> (lines 122 to 137). \<open>ParseDeploySecrets\<close> is
  \<open>api.ParseDeploySecrets\<close>, a parameter: from the payload to an error or the secrets.
\<close>

definition readFallbackFile :: "(bytes \<Rightarrow> error + (string \<rightharpoonup> string)) \<Rightarrow> string \<Rightarrow> world
    \<Rightarrow> (string \<rightharpoonup> string) outcome \<times> world" where
  "readFallbackFile ParseDeploySecrets path w =
     (case ioutil_ReadFile path (log_event (Println ''Using fallback file'') w) of
        (Inl err, w1) \<Rightarrow> utils_Err err (log_event (Println ''Unable to read fallback file'') w1)
      | (Inr resp, w1) \<Rightarrow>
          (case ParseDeploySecrets resp of
             Inl err \<Rightarrow> utils_Err err (log_event (Println ''Unable to parse fallback file'') w1)
           | Inr secrets \<Rightarrow> (Returned secrets, w1)))"

text \<open>
  \<open>getSecrets\<close> (lines 87 to 120). \<open>GetDeploySecrets\<close> is \<open>api.GetDeploySecrets\<close>, a
  parameter: from key, project and config to the pair of the response and the error it
  returns (\<open>None\<close> is nil). The permission 0600 is octal.
\<close>

definition getSecrets :: "(string \<Rightarrow> string \<Rightarrow> string \<Rightarrow> bytes \<times> error option)
    \<Rightarrow> (bytes \<Rightarrow> error + (string \<rightharpoonup> string)) \<Rightarrow> ScopedConfig \<Rightarrow> string \<Rightarrow> bool \<Rightarrow> bool \<Rightarrow> world
    \<Rightarrow> (string \<rightharpoonup> string) outcome \<times> world" where
  "getSecrets GetDeploySecrets ParseDeploySecrets localConfig fallbackPath fallbackReadonly fallbackOnly w =
     (let useFallbackFile = (fallbackPath \<noteq> '''') in
      if useFallbackFile \<and> fallbackOnly then readFallbackFile ParseDeploySecrets fallbackPath w
      else
        (case GetDeploySecrets (Key localConfig) (Project localConfig) (Config localConfig) of
           (resp, err) \<Rightarrow>
             (let w1 = log_event (NetworkCall (Key localConfig) (Project localConfig) (Config localConfig)) w in
              case err of
                Some e \<Rightarrow>
                  (if \<not> useFallbackFile then utils_Err e w1
                   else readFallbackFile ParseDeploySecrets fallbackPath w1)
              | None \<Rightarrow>
                  (case (if useFallbackFile \<and> \<not> fallbackReadonly
                         then ioutil_WriteFile fallbackPath resp (6 * 8 * 8) w1
                         else (None, w1)) of
                     (Some werr, w2) \<Rightarrow>
                       utils_Err werr (log_event (Println ''Unable to write fallback file'') w2)
                   | (None, w2) \<Rightarrow>
                       (case ParseDeploySecrets resp of
                          Inl perr \<Rightarrow> utils_Err perr (log_event (Println ''Unable to parse response'') w2)
                        | Inr secrets \<Rightarrow> (Returned secrets, w2))))))"

text \<open>
  The loops of \<open>runCmd\<close> (lines 63 to 77). The inner loop looks \<open>name\<close> up among the
  excluded keys and leaves at the first hit; the outer loop ranges over the secrets (a
  list of pairs with distinct names, in the order the range visits them, which Go leaves
  open) and appends \<open>name=value\<close> to the environment.
\<close>

definition excludedKeys :: "string list" where
  "excludedKeys = [''PATH'', ''PS1'', ''HOME'']"

fun addKey :: "string list \<Rightarrow> string \<Rightarrow> bool" where
  "addKey [] name = True"
| "addKey (excludedKey # rest) name = (if excludedKey = name then False else addKey rest name)"

fun inject :: "string list \<Rightarrow> (string \<times> string) list \<Rightarrow> string list" where
  "inject env [] = env"
| "inject env ((name, val) # rest) =
     inject (if addKey excludedKeys name then env @ [name @ ''='' @ val] else env) rest"

text \<open>
  Modelled from the spec: \<open>utils.RunCommand\<close>, which hands the environment to the child,
  is not among the source files. The spec (4.4, step 6): of two entries with the same
  name the one appended later is the one the child sees. The name of an entry is what
  stands before its first \<open>=\<close>, the value what stands after it.
\<close>

definition entry_name :: "string \<Rightarrow> string" where
  "entry_name e = takeWhile (\<lambda>c. c \<noteq> CHR ''='') e"

definition entry_value :: "string \<Rightarrow> string" where
  "entry_value e = tl (dropWhile (\<lambda>c. c \<noteq> CHR ''='') e)"

fun child_getenv :: "string list \<Rightarrow> string \<Rightarrow> string option" where
  "child_getenv [] name = None"
| "child_getenv (e # es) name =
     (case child_getenv es name of
        Some v \<Rightarrow> Some v
      | None \<Rightarrow> (if entry_name e = name then Some (entry_value e) else None))"

section \<open>Package api: decoding the secrets\<close>

text \<open>
  A value that \<open>encoding/json\<close> stores in an \<open>interface{}\<close>: nil, a bool, a float64 (kept
  as the literal it was read from), a string, a slice, or a map from strings (a list of
  pairs with distinct keys, in the order a range over the map visits them).
\<close>

datatype go_value =
    Nil
  | GBool bool
  | GFloat64 string
  | GString string
  | GSlice "go_value list"
  | GMap "(string \<times> go_value) list"

record ComputedSecret =
  Name :: string
  RawValue :: string
  ComputedValue :: string

fun type_name :: "go_value \<Rightarrow> string" where
  "type_name Nil = ''nil''"
| "type_name (GBool b) = ''bool''"
| "type_name (GFloat64 x) = ''float64''"
| "type_name (GString s) = ''string''"
| "type_name (GSlice xs) = ''[]interface {}''"
| "type_name (GMap m) = ''map[string]interface {}''"

text \<open>
  The type assertions \<open>v.(map[string]interface{})\<close> and \<open>v.(string)\<close> in their one-value
  form: a value of another type is a runtime panic, here \<open>Inl\<close> with its message.
\<close>

fun assert_map :: "go_value \<Rightarrow> string + (string \<times> go_value) list" where
  "assert_map (GMap m) = Inr m"
| "assert_map v =
     Inl (''interface conversion: interface {} is '' @ type_name v @ '', not map[string]interface {}'')"

fun assert_string :: "go_value \<Rightarrow> string + string" where
  "assert_string (GString s) = Inr s"
| "assert_string v =
     Inl (''interface conversion: interface {} is '' @ type_name v @ '', not string'')"

text \<open>Indexing a map: a missing key (and any key of a nil map) gives nil.\<close>

definition index_map :: "(string \<times> go_value) list \<Rightarrow> string \<Rightarrow> go_value" where
  "index_map m k = (case map_of m k of None \<Rightarrow> Nil | Some v \<Rightarrow> v)"

text \<open>
  How \<open>encoding/json\<close> names the kind of a JSON value in its errors.
\<close>

fun json_kind :: "go_value \<Rightarrow> string" where
  "json_kind Nil = ''null''"
| "json_kind (GBool b) = ''bool''"
| "json_kind (GFloat64 x) = ''number''"
| "json_kind (GString s) = ''string''"
| "json_kind (GSlice xs) = ''array''"
| "json_kind (GMap m) = ''object''"

text \<open>
  \<open>json.Unmarshal (response, &result)\<close> with \<open>result\<close> a \<open>map[string]interface{}\<close>.
  \<open>json_decode\<close> is the decoder of \<open>encoding/json\<close>, a parameter: an error for text that
  is not JSON, else the value. An object fills the map, \<open>null\<close> leaves it nil (which
  indexes like the empty map), any other value is an error.
\<close>

definition json_Unmarshal_map :: "(bytes \<Rightarrow> error + go_value) \<Rightarrow> bytes
    \<Rightarrow> error + (string \<times> go_value) list" where
  "json_Unmarshal_map json_decode data =
     (case json_decode data of
        Inl err \<Rightarrow> Inl err
      | Inr (GMap m) \<Rightarrow> Inr m
      | Inr Nil \<Rightarrow> Inr []
      | Inr v \<Rightarrow>
          Inl (Error (''json: cannot unmarshal '' @ json_kind v
                 @ '' into Go value of type map[string]interface {}'')))"

text \<open>The range loop of \<open>GetAPISecrets\<close> (lines 246 to 249).\<close>

fun computed_loop :: "(string \<times> go_value) list \<Rightarrow> (string \<rightharpoonup> ComputedSecret)
    \<Rightarrow> string + (string \<rightharpoonup> ComputedSecret)" where
  "computed_loop [] computed = Inr computed"
| "computed_loop ((key, secret) # rest) computed =
     (case assert_map secret of
        Inl p \<Rightarrow> Inl p
      | Inr v \<Rightarrow>
          (case assert_string (index_map v ''raw'') of
             Inl p \<Rightarrow> Inl p
           | Inr raw \<Rightarrow>
               (case assert_string (index_map v ''computed'') of
                  Inl p \<Rightarrow> Inl p
                | Inr cval \<Rightarrow>
                    computed_loop rest
                      (computed(key \<mapsto> \<lparr>Name = key, RawValue = raw, ComputedValue = cval\<rparr>)))))"

text \<open>
  \<open>GetAPISecrets\<close> (lines 225 to 252). \<open>GetRequest\<close> is what \<open>utils.GetRequest\<close> returns
  for the request built from the arguments, a parameter.
\<close>

definition GetAPISecrets :: "bytes \<times> error option \<Rightarrow> (bytes \<Rightarrow> error + go_value) \<Rightarrow> world
    \<Rightarrow> (bytes \<times> (string \<rightharpoonup> ComputedSecret)) outcome \<times> world" where
  "GetAPISecrets GetRequest json_decode w =
     (case GetRequest of
        (resp, Some err) \<Rightarrow> utils_Err err (log_event (Println ''Unable to fetch secrets'') w)
      | (resp, None) \<Rightarrow>
          (case json_Unmarshal_map json_decode resp of
             Inl err \<Rightarrow> utils_Err err w
           | Inr result \<Rightarrow>
               (case assert_map (index_map result ''variables'') of
                  Inl p \<Rightarrow> (Panic p, w)
                | Inr secrets \<Rightarrow>
                    (case computed_loop secrets Map.empty of
                       Inl p \<Rightarrow> (Panic p, w)
                     | Inr computed \<Rightarrow> (Returned (resp, computed), w)))))"

text \<open>
  What the loop asks of an entry of \<open>variables\<close>: it is an object whose \<open>raw\<close> and
  \<open>computed\<close> are both strings.
\<close>

fun has_raw_and_computed :: "go_value \<Rightarrow> bool" where
  "has_raw_and_computed (GMap v) =
     (case (index_map v ''raw'', index_map v ''computed'') of
        (GString raw, GString cval) \<Rightarrow> True
      | _ \<Rightarrow> False)"
| "has_raw_and_computed v = False"

section \<open>Inputs for the examples\<close>

text \<open>
  An error body and a decoder that knows it; servers that answer the attempts of one
  request.
\<close>

definition unavailable_body :: bytes where
  \<open>unavailable_body = ''{"messages":["Service Unavailable","try later"],"success":false}''\<close>

definition example_Unmarshal :: "bytes \<Rightarrow> error + errorResponse" where
  "example_Unmarshal body =
     (if body = unavailable_body
      then Inr \<lparr>Messages = [''Service Unavailable'', ''try later''], Success = False\<rparr>
      else Inl (Error ''invalid character''))"

definition server_503 :: "nat \<Rightarrow> do_result" where
  "server_503 i = DoResp \<lparr>StatusCode = 503, Body = Inr unavailable_body\<rparr>"

definition server_503_then_200 :: "nat \<Rightarrow> do_result" where
  "server_503_then_200 i =
     (if i < 4 then DoResp \<lparr>StatusCode = 503, Body = Inr unavailable_body\<rparr>
      else DoResp \<lparr>StatusCode = 200, Body = Inr ''{}''\<rparr>)"

definition server_404 :: "nat \<Rightarrow> do_result" where
  "server_404 i = DoResp \<lparr>StatusCode = 404, Body = Inr ''not json''\<rparr>"

definition server_refused :: "nat \<Rightarrow> do_result" where
  "server_refused i = DoErr (Error ''connection refused'')"

definition server_503_then_refused :: "nat \<Rightarrow> do_result" where
  "server_503_then_refused i =
     (if i = 0 then DoResp \<lparr>StatusCode = 503, Body = Inr unavailable_body\<rparr>
      else DoErr (Error ''connection refused''))"

text \<open>
  A configuration, a payload of secrets and a parser that knows it, the API when it is
  reachable and when it is not, and three disks (the umask is 022): an empty one, one
  on which no file can be opened for writing, and one that holds the payload as fallback
  file.
\<close>

definition example_config :: ScopedConfig where
  "example_config = \<lparr>Key = ''dp.st.key'', Project = ''backend'', Config = ''dev''\<rparr>"

definition api_payload :: bytes where
  \<open>api_payload = ''{"API_KEY":{"raw":"x","computed":"y"}}''\<close>

definition example_Parse :: "bytes \<Rightarrow> error + (string \<rightharpoonup> string)" where
  "example_Parse data =
     (if data = api_payload then Inr [''API_KEY'' \<mapsto> ''y'']
      else Inl (Error ''unexpected end of JSON input''))"

definition api_up :: "string \<Rightarrow> string \<Rightarrow> string \<Rightarrow> bytes \<times> error option" where
  "api_up k p c = (api_payload, None)"

definition api_down :: "string \<Rightarrow> string \<Rightarrow> string \<Rightarrow> bytes \<times> error option" where
  "api_down k p c = ([], Some (Error ''connection refused''))"

definition empty_disk :: world where
  "empty_disk =
     \<lparr>fs_read = (\<lambda>path. Inl (Error ''no such file or directory'')),
      fs_mode = (\<lambda>path. None), umask = 18,
      fs_write_fault = (\<lambda>path. None), trace = []\<rparr>"

definition readonly_disk :: world where
  "readonly_disk =
     \<lparr>fs_read = (\<lambda>path. Inl (Error ''no such file or directory'')),
      fs_mode = (\<lambda>path. None), umask = 18,
      fs_write_fault = (\<lambda>path. Some (OpenFails (Error ''permission denied''))), trace = []\<rparr>"

definition disk_with_fallback :: world where
  "disk_with_fallback =
     \<lparr>fs_read = (\<lambda>path. if path = ''fallback.json'' then Inr api_payload
                          else Inl (Error ''no such file or directory'')),
      fs_mode = (\<lambda>path. if path = ''fallback.json'' then Some 420 else None), umask = 18,
      fs_write_fault = (\<lambda>path. None), trace = []\<rparr>"



text \<open>An environment of the process and the secrets of one fetch.\<close>

definition example_env :: "string list" where
  "example_env = [''PATH=/usr/bin'', ''API_KEY=old'', ''LANG=C'']"

definition example_secrets :: "(string \<times> string) list" where
  "example_secrets =
     [(''PATH'', ''/evil''), (''API_KEY'', ''y''), (''HOME'', ''/tmp''), (''DB'', ''z'')]"

text \<open>A mapping whose one name contains \<open>=\<close>.\<close>

definition evil_secrets :: "(string \<times> string) list" where
  "evil_secrets = [(''PATH=/evil'', ''x'')]"

text \<open>
  Two response bodies that are valid JSON, and a decoder that knows them: an object
  without \<open>variables\<close>, and one whose only secret has no \<open>raw\<close>.
\<close>

definition empty_object_body :: bytes where
  "empty_object_body = ''{}''"

definition no_raw_body :: bytes where
  \<open>no_raw_body = ''{"variables":{"API_KEY":{"computed":"y"}}}''\<close>

definition example_decode :: "bytes \<Rightarrow> error + go_value" where
  "example_decode data =
     (if data = empty_object_body then Inr (GMap [])
      else if data = no_raw_body
      then Inr (GMap [(''variables'', GMap [(''API_KEY'', GMap [(''computed'', GString ''y'')])])])
      else Inl (Error ''invalid character''))"

section \<open>The retry loop\<close>

lemma isRetry_not_isSuccess: "isRetry c \<Longrightarrow> \<not> isSuccess c"
  by (auto simp: isRetry_def isSuccess_def)

lemma attempt_success:
  "client_Do (count_list (events st) Do) = DoResp r \<Longrightarrow> isSuccess (StatusCode r) \<Longrightarrow>
   attempt client_Do st = (None, \<lparr>events = events st @ [Do], response = Some r\<rparr>)"
  by (simp add: attempt_def)

lemma attempt_retryable:
  "client_Do (count_list (events st) Do) = DoResp r \<Longrightarrow> isRetry (StatusCode r) \<Longrightarrow>
   attempt client_Do st =
     (Some (Plain (Error ''Request failed'')), \<lparr>events = events st @ [Do], response = Some r\<rparr>)"
  by (simp add: attempt_def isRetry_not_isSuccess)

lemma attempt_final:
  "client_Do (count_list (events st) Do) = DoResp r \<Longrightarrow> \<not> isSuccess (StatusCode r) \<Longrightarrow>
   \<not> isRetry (StatusCode r) \<Longrightarrow>
   attempt client_Do st =
     (Some (StopRetry (Error ''Request failed'')), \<lparr>events = events st @ [Do], response = Some r\<rparr>)"
  by (simp add: attempt_def)

lemma attempt_transport:
  "client_Do (count_list (events st) Do) = DoErr err \<Longrightarrow>
   attempt client_Do st =
     (Some (StopRetry err), \<lparr>events = events st @ [Do], response = response st\<rparr>)"
  by (simp add: attempt_def)

text \<open>
  Claim C2. Whatever the state of the loop and the number \<open>n\<close> of attempts it may still
  make, when the attempt now made is answered with status code \<open>c\<close>: for \<open>c\<close> in 200
  to 299 the loop ends at once with success (a nil error); for \<open>c\<close> equal to 429, in 100
  to 199 or in 500 to 599 the loop sleeps the fixed delay \<open>d\<close> and goes on with the next
  attempt, as long as an attempt is left (with none left it ends with the error
  "Request failed"); for every other \<open>c\<close> the loop ends at once with the error
  "Request failed", and no sleep and no further attempt follows.
\<close>

theorem status_decides_the_loop:
  "client_Do (count_list (events st) Do) = DoResp r \<longrightarrow>
     (200 \<le> StatusCode r \<and> StatusCode r \<le> 299 \<longrightarrow>
        retry n d (attempt client_Do) st =
          (None, \<lparr>events = events st @ [Do], response = Some r\<rparr>))
   \<and> (StatusCode r = 429 \<or> 100 \<le> StatusCode r \<and> StatusCode r \<le> 199
        \<or> 500 \<le> StatusCode r \<and> StatusCode r \<le> 599 \<longrightarrow>
        (1 < n \<longrightarrow>
           retry n d (attempt client_Do) st =
             retry (n - 1) d (attempt client_Do)
               (\<lparr>events = events st @ [Do, Sleep d], response = Some r\<rparr>))
      \<and> (n \<le> 1 \<longrightarrow>
           retry n d (attempt client_Do) st =
             (Some (Error ''Request failed''),
              \<lparr>events = events st @ [Do], response = Some r\<rparr>)))
   \<and> (\<not> (200 \<le> StatusCode r \<and> StatusCode r \<le> 299)
        \<and> \<not> (StatusCode r = 429 \<or> 100 \<le> StatusCode r \<and> StatusCode r \<le> 199
              \<or> 500 \<le> StatusCode r \<and> StatusCode r \<le> 599) \<longrightarrow>
        retry n d (attempt client_Do) st =
          (Some (Error ''Request failed''),
           \<lparr>events = events st @ [Do], response = Some r\<rparr>))"
proof (intro impI conjI)
  assume r: "client_Do (count_list (events st) Do) = DoResp r"
  {
    assume "200 \<le> StatusCode r \<and> StatusCode r \<le> 299"
    then have "isSuccess (StatusCode r)" by (simp add: isSuccess_def)
    then show "retry n d (attempt client_Do) st =
        (None, \<lparr>events = events st @ [Do], response = Some r\<rparr>)"
      using r by (cases n) (simp_all add: attempt_success)
  }
  {
    assume "StatusCode r = 429 \<or> 100 \<le> StatusCode r \<and> StatusCode r \<le> 199
        \<or> 500 \<le> StatusCode r \<and> StatusCode r \<le> 599"
    then have c: "isRetry (StatusCode r)" by (simp add: isRetry_def)
    {
      assume "1 < n"
      then show "retry n d (attempt client_Do) st =
             retry (n - 1) d (attempt client_Do)
               (\<lparr>events = events st @ [Do, Sleep d], response = Some r\<rparr>)"
        using r c by (cases n) (simp_all add: attempt_retryable)
    }
    {
      assume "n \<le> 1"
      then show "retry n d (attempt client_Do) st =
             (Some (Error ''Request failed''),
              \<lparr>events = events st @ [Do], response = Some r\<rparr>)"
        using r c by (cases n) (simp_all add: attempt_retryable)
    }
  }
  {
    assume "\<not> (200 \<le> StatusCode r \<and> StatusCode r \<le> 299)
        \<and> \<not> (StatusCode r = 429 \<or> 100 \<le> StatusCode r \<and> StatusCode r \<le> 199
              \<or> 500 \<le> StatusCode r \<and> StatusCode r \<le> 599)"
    then have "\<not> isSuccess (StatusCode r)" "\<not> isRetry (StatusCode r)"
      by (simp_all add: isSuccess_def isRetry_def)
    then show "retry n d (attempt client_Do) st =
          (Some (Error ''Request failed''),
           \<lparr>events = events st @ [Do], response = Some r\<rparr>)"
      using r by (cases n) (simp_all add: attempt_final)
  }
qed

theorem status_decides_the_loop_witness:
  "retry 1 100 (attempt server_503_then_200) \<lparr>events = [Do, Do, Do, Do], response = None\<rparr> =
     (None, \<lparr>events = [Do, Do, Do, Do, Do],
             response = Some \<lparr>StatusCode = 200, Body = Inr ''{}''\<rparr>\<rparr>)
   \<and> retry 5 100 (attempt server_503) \<lparr>events = [], response = None\<rparr> =
       retry 4 100 (attempt server_503)
         \<lparr>events = [Do, Sleep 100],
          response = Some \<lparr>StatusCode = 503, Body = Inr unavailable_body\<rparr>\<rparr>
   \<and> retry 1 100 (attempt server_503) \<lparr>events = [], response = None\<rparr> =
       (Some (Error ''Request failed''),
        \<lparr>events = [Do], response = Some \<lparr>StatusCode = 503, Body = Inr unavailable_body\<rparr>\<rparr>)
   \<and> retry 5 100 (attempt server_404) \<lparr>events = [], response = None\<rparr> =
       (Some (Error ''Request failed''),
        \<lparr>events = [Do], response = Some \<lparr>StatusCode = 404, Body = Inr ''not json''\<rparr>\<rparr>)"
  using
    status_decides_the_loop [where client_Do = server_503_then_200
      and st = "\<lparr>events = [Do, Do, Do, Do], response = None\<rparr>"
      and r = "\<lparr>StatusCode = 200, Body = Inr ''{}''\<rparr>" and n = 1 and d = 100]
    status_decides_the_loop [where client_Do = server_503
      and st = "\<lparr>events = [], response = None\<rparr>"
      and r = "\<lparr>StatusCode = 503, Body = Inr unavailable_body\<rparr>" and n = 5 and d = 100]
    status_decides_the_loop [where client_Do = server_503
      and st = "\<lparr>events = [], response = None\<rparr>"
      and r = "\<lparr>StatusCode = 503, Body = Inr unavailable_body\<rparr>" and n = 1 and d = 100]
    status_decides_the_loop [where client_Do = server_404
      and st = "\<lparr>events = [], response = None\<rparr>"
      and r = "\<lparr>StatusCode = 404, Body = Inr ''not json''\<rparr>" and n = 5 and d = 100]
  by (simp add: server_503_then_200_def server_503_def server_404_def)

lemma first_five:
  assumes "\<forall>i<5. P (i::nat)"
  shows "P 0" "P (Suc 0)" "P 2" "P 3" "P 4"
  using assms by simp_all

lemma first_four:
  assumes "\<forall>i<4. P (i::nat)"
  shows "P 0" "P (Suc 0)" "P 2" "P 3"
  using assms by simp_all

lemma retry_five_retryable:
  assumes "\<forall>i<5. \<exists>r. client_Do i = DoResp r \<and> isRetry (StatusCode r)"
    and "client_Do 4 = DoResp r"
  shows "retry 5 100 (attempt client_Do) \<lparr>events = [], response = None\<rparr> =
     (Some (Error ''Request failed''),
      \<lparr>events = [Do, Sleep 100, Do, Sleep 100, Do, Sleep 100, Do, Sleep 100, Do],
       response = Some r\<rparr>)"
proof -
  from first_five [OF assms(1)] obtain r0 r1 r2 r3 r4 where
    r: "client_Do 0 = DoResp r0" "client_Do (Suc 0) = DoResp r1" "client_Do 2 = DoResp r2"
       "client_Do 3 = DoResp r3" "client_Do 4 = DoResp r4"
    and s: "isRetry (StatusCode r0)" "isRetry (StatusCode r1)" "isRetry (StatusCode r2)"
       "isRetry (StatusCode r3)" "isRetry (StatusCode r4)"
    by blast
  from r(5) assms(2) have "r4 = r" by simp
  then show ?thesis
    using r s by (simp add: eval_nat_numeral attempt_def isRetry_not_isSuccess)
qed

lemma retry_four_retryable_then_success:
  assumes "\<forall>i<4. \<exists>r. client_Do i = DoResp r \<and> isRetry (StatusCode r)"
    and "client_Do 4 = DoResp r" and "isSuccess (StatusCode r)"
  shows "retry 5 100 (attempt client_Do) \<lparr>events = [], response = None\<rparr> =
     (None,
      \<lparr>events = [Do, Sleep 100, Do, Sleep 100, Do, Sleep 100, Do, Sleep 100, Do],
       response = Some r\<rparr>)"
proof -
  from first_four [OF assms(1)] obtain r0 r1 r2 r3 where
    r: "client_Do 0 = DoResp r0" "client_Do (Suc 0) = DoResp r1" "client_Do 2 = DoResp r2"
       "client_Do 3 = DoResp r3"
    and s: "isRetry (StatusCode r0)" "isRetry (StatusCode r1)" "isRetry (StatusCode r2)"
       "isRetry (StatusCode r3)"
    by blast
  show ?thesis
    using r s assms(2,3) by (simp add: eval_nat_numeral attempt_def isRetry_not_isSuccess)
qed

text \<open>
  Claim C3. When the first four attempts are answered with status 503 and the fifth with
  status 200, the request is attempted exactly five times (four sleeps of 100 ms between
  them), the retry loop ends with success, and \<open>performRequest\<close> returns status 200
  with the body read from the fifth response and a nil error (the error of the read, were
  the body to fail to read). When the first five attempts are all answered with status
  503, the request is attempted exactly five times and never a sixth, the retry loop
  ends with the error "Request failed", and \<open>performRequest\<close> returns status 503 with
  an error.
\<close>

theorem four_503_then_200_and_five_503:
  "((\<forall>i<4. \<exists>r. client_Do i = DoResp r \<and> StatusCode r = 503)
      \<and> client_Do 4 = DoResp r5 \<and> StatusCode r5 = 200 \<longrightarrow>
        snd (performRequest json_Unmarshal client_Do) =
          [Do, Sleep 100, Do, Sleep 100, Do, Sleep 100, Do, Sleep 100, Do]
      \<and> count_list (snd (performRequest json_Unmarshal client_Do)) Do = 5
      \<and> fst (retry 5 100 (attempt client_Do) \<lparr>events = [], response = None\<rparr>) = None
      \<and> fst (performRequest json_Unmarshal client_Do) =
          (case Body r5 of Inr body \<Rightarrow> Returned (200, Some body, None)
                         | Inl err \<Rightarrow> Returned (200, None, Some err)))
   \<and> ((\<forall>i<5. \<exists>r. client_Do i = DoResp r \<and> StatusCode r = 503) \<longrightarrow>
        snd (performRequest json_Unmarshal client_Do) =
          [Do, Sleep 100, Do, Sleep 100, Do, Sleep 100, Do, Sleep 100, Do]
      \<and> count_list (snd (performRequest json_Unmarshal client_Do)) Do = 5
      \<and> fst (retry 5 100 (attempt client_Do) \<lparr>events = [], response = None\<rparr>) =
          Some (Error ''Request failed'')
      \<and> (\<exists>body err. fst (performRequest json_Unmarshal client_Do) = Returned (503, body, Some err)))"
proof (intro conjI impI)
  assume a: "(\<forall>i<4. \<exists>r. client_Do i = DoResp r \<and> StatusCode r = 503)
      \<and> client_Do 4 = DoResp r5 \<and> StatusCode r5 = 200"
  then have "\<forall>i<4. \<exists>r. client_Do i = DoResp r \<and> isRetry (StatusCode r)"
    by (auto simp: isRetry_def)
  moreover from a have "client_Do 4 = DoResp r5" "isSuccess (StatusCode r5)"
    by (simp_all add: isSuccess_def)
  ultimately have run: "retry 5 100 (attempt client_Do) \<lparr>events = [], response = None\<rparr> =
     (None,
      \<lparr>events = [Do, Sleep 100, Do, Sleep 100, Do, Sleep 100, Do, Sleep 100, Do],
       response = Some r5\<rparr>)"
    by (rule retry_four_retryable_then_success)
  show "snd (performRequest json_Unmarshal client_Do) =
          [Do, Sleep 100, Do, Sleep 100, Do, Sleep 100, Do, Sleep 100, Do]"
    by (simp add: performRequest_def run)
  show "count_list (snd (performRequest json_Unmarshal client_Do)) Do = 5"
    by (simp add: performRequest_def run)
  show "fst (retry 5 100 (attempt client_Do) \<lparr>events = [], response = None\<rparr>) = None"
    by (simp add: run)
  show "fst (performRequest json_Unmarshal client_Do) =
          (case Body r5 of Inr body \<Rightarrow> Returned (200, Some body, None)
                         | Inl err \<Rightarrow> Returned (200, None, Some err))"
    using a by (simp add: performRequest_def run finishRequest_def split: sum.splits)
next
  assume a: "\<forall>i<5. \<exists>r. client_Do i = DoResp r \<and> StatusCode r = 503"
  then have b: "\<forall>i<5. \<exists>r. client_Do i = DoResp r \<and> isRetry (StatusCode r)"
    by (auto simp: isRetry_def)
  from a obtain r where r: "client_Do 4 = DoResp r" "StatusCode r = 503"
    using first_five(5) [OF a] by blast
  have run: "retry 5 100 (attempt client_Do) \<lparr>events = [], response = None\<rparr> =
     (Some (Error ''Request failed''),
      \<lparr>events = [Do, Sleep 100, Do, Sleep 100, Do, Sleep 100, Do, Sleep 100, Do],
       response = Some r\<rparr>)"
    using b r(1) by (rule retry_five_retryable)
  show "snd (performRequest json_Unmarshal client_Do) =
          [Do, Sleep 100, Do, Sleep 100, Do, Sleep 100, Do, Sleep 100, Do]"
    by (simp add: performRequest_def run)
  show "count_list (snd (performRequest json_Unmarshal client_Do)) Do = 5"
    by (simp add: performRequest_def run)
  show "fst (retry 5 100 (attempt client_Do) \<lparr>events = [], response = None\<rparr>) =
          Some (Error ''Request failed'')"
    by (simp add: run)
  show "\<exists>body err. fst (performRequest json_Unmarshal client_Do) = Returned (503, body, Some err)"
    using r(2) by (simp add: performRequest_def run finishRequest_def split: sum.splits)
qed

theorem four_503_then_200_and_five_503_witness:
  "performRequest example_Unmarshal server_503_then_200 =
     (Returned (200, Some ''{}'', None),
      [Do, Sleep 100, Do, Sleep 100, Do, Sleep 100, Do, Sleep 100, Do])
   \<and> snd (performRequest example_Unmarshal server_503) =
       [Do, Sleep 100, Do, Sleep 100, Do, Sleep 100, Do, Sleep 100, Do]
   \<and> count_list (snd (performRequest example_Unmarshal server_503)) Do = 5
   \<and> (\<exists>body err. fst (performRequest example_Unmarshal server_503) = Returned (503, body, Some err))"
  using
    four_503_then_200_and_five_503 [where client_Do = server_503_then_200
      and ?r5.0 = "\<lparr>StatusCode = 200, Body = Inr ''{}''\<rparr>" and json_Unmarshal = example_Unmarshal]
    four_503_then_200_and_five_503 [where client_Do = server_503
      and ?r5.0 = "\<lparr>StatusCode = 503, Body = Inr unavailable_body\<rparr>"
      and json_Unmarshal = example_Unmarshal]
  by (simp add: server_503_then_200_def server_503_def prod_eq_iff)

section \<open>What performRequest returns\<close>

lemma write_messages_later:
  "i \<noteq> 0 \<Longrightarrow> write_messages i ms sb = sb @ concat (map (\<lambda>m. CHR 0x0A # m) ms)"
  by (induction ms arbitrary: i sb) simp_all

lemma joined_with_newlines_Cons:
  "joined_with_newlines (m # ms) = m @ concat (map (\<lambda>m. CHR 0x0A # m) ms)"
  by (induction ms arbitrary: m) simp_all

lemma write_messages_joined: "write_messages 0 ms [] = joined_with_newlines ms"
  by (cases ms) (simp_all add: write_messages_later joined_with_newlines_Cons)

lemma retry_transport_error:
  "client_Do (count_list (events st) Do) = DoErr err \<Longrightarrow>
   retry n d (attempt client_Do) st =
     (Some err, \<lparr>events = events st @ [Do], response = response st\<rparr>)"
  by (cases n) (simp_all add: attempt_transport)

text \<open>
  Claim C4, as stated, fails: when the first attempt is answered with status 503 and the
  second attempt fails with "connection refused", the loop stops after the second
  attempt, but what is returned is the status 503 and the body of the first response
  with an error made of that body's messages, not status 0, a nil body and the transport
  error.
\<close>

theorem later_transport_error_counterexample:
  "server_503_then_refused 1 = DoErr (Error ''connection refused'')
   \<and> performRequest example_Unmarshal server_503_then_refused =
       (Returned (503, Some unavailable_body,
          Some (Error (''Service Unavailable'' @ [CHR 0x0A] @ ''try later''))),
        [Do, Sleep 100, Do])
   \<and> fst (performRequest example_Unmarshal server_503_then_refused) \<noteq>
       Returned (0, None, Some (Error ''connection refused''))"
  by (simp add: performRequest_def eval_nat_numeral attempt_def server_503_then_refused_def
      isSuccess_def isRetry_def finishRequest_def example_Unmarshal_def)

text \<open>
  Claim C4, amended. When the first attempt of a request fails with a transport error,
  that attempt is the only one and \<open>performRequest\<close> returns status code 0, a nil body
  and the transport error. When any attempt fails with a transport error, the retry loop
  ends with that attempt (no sleep and no further attempt follows) and the error of the
  loop is the transport error.
\<close>

theorem transport_error_stops_the_loop:
  "(client_Do 0 = DoErr err \<longrightarrow>
      performRequest json_Unmarshal client_Do = (Returned (0, None, Some err), [Do]))
   \<and> (client_Do (count_list (events st) Do) = DoErr err \<longrightarrow>
      retry n d (attempt client_Do) st =
        (Some err, \<lparr>events = events st @ [Do], response = response st\<rparr>))"
proof (intro conjI impI)
  assume "client_Do 0 = DoErr err"
  then have "retry 5 100 (attempt client_Do) \<lparr>events = [], response = None\<rparr> =
      (Some err, \<lparr>events = [Do], response = None\<rparr>)"
    by (simp add: retry_transport_error)
  then show "performRequest json_Unmarshal client_Do = (Returned (0, None, Some err), [Do])"
    by (simp add: performRequest_def finishRequest_def)
next
  assume "client_Do (count_list (events st) Do) = DoErr err"
  then show "retry n d (attempt client_Do) st =
      (Some err, \<lparr>events = events st @ [Do], response = response st\<rparr>)"
    by (rule retry_transport_error)
qed

theorem transport_error_stops_the_loop_witness:
  "performRequest example_Unmarshal server_refused =
     (Returned (0, None, Some (Error ''connection refused'')), [Do])
   \<and> retry 4 100 (attempt server_503_then_refused)
        \<lparr>events = [Do, Sleep 100],
         response = Some \<lparr>StatusCode = 503, Body = Inr unavailable_body\<rparr>\<rparr> =
       (Some (Error ''connection refused''),
        \<lparr>events = [Do, Sleep 100, Do],
         response = Some \<lparr>StatusCode = 503, Body = Inr unavailable_body\<rparr>\<rparr>)"
  using
    transport_error_stops_the_loop [where client_Do = server_refused
      and err = "Error ''connection refused''" and json_Unmarshal = example_Unmarshal
      and st = "\<lparr>events = [], response = None\<rparr>" and n = 5 and d = 100]
    transport_error_stops_the_loop [where client_Do = server_503_then_refused
      and err = "Error ''connection refused''" and json_Unmarshal = example_Unmarshal
      and st = "\<lparr>events = [Do, Sleep 100],
                 response = Some \<lparr>StatusCode = 503, Body = Inr unavailable_body\<rparr>\<rparr>"
      and n = 4 and d = 100]
  by (simp add: server_refused_def server_503_then_refused_def)

text \<open>
  Claim C6. When all five attempts are answered with a status that is retried (so the
  retries are used up and the last attempt produced a response) and the body of the last
  response reads as \<open>body\<close>: if \<open>body\<close> decodes to an error response, the status code
  and \<open>body\<close> are returned with an error whose message is the entries of its messages
  joined with newlines; if decoding \<open>body\<close> fails, the status code is returned with a
  nil body and the error of the decoding.
\<close>

theorem exhausted_retries_report_the_last_body:
  "(\<forall>i<5. \<exists>r. client_Do i = DoResp r \<and> isRetry (StatusCode r))
     \<and> client_Do 4 = DoResp r \<and> Body r = Inr body \<longrightarrow>
   fst (performRequest json_Unmarshal client_Do) =
     (case json_Unmarshal body of
        Inr errResponse \<Rightarrow>
          Returned (StatusCode r, Some body,
            Some (Error (joined_with_newlines (Messages errResponse))))
      | Inl err \<Rightarrow> Returned (StatusCode r, None, Some err))"
proof
  assume a: "(\<forall>i<5. \<exists>r. client_Do i = DoResp r \<and> isRetry (StatusCode r))
     \<and> client_Do 4 = DoResp r \<and> Body r = Inr body"
  then have "retry 5 100 (attempt client_Do) \<lparr>events = [], response = None\<rparr> =
     (Some (Error ''Request failed''),
      \<lparr>events = [Do, Sleep 100, Do, Sleep 100, Do, Sleep 100, Do, Sleep 100, Do],
       response = Some r\<rparr>)"
    by (simp add: retry_five_retryable)
  then show "fst (performRequest json_Unmarshal client_Do) =
     (case json_Unmarshal body of
        Inr errResponse \<Rightarrow>
          Returned (StatusCode r, Some body,
            Some (Error (joined_with_newlines (Messages errResponse))))
      | Inl err \<Rightarrow> Returned (StatusCode r, None, Some err))"
    using a by (simp add: performRequest_def finishRequest_def write_messages_joined
        split: sum.splits)
qed

theorem exhausted_retries_report_the_last_body_witness:
  "fst (performRequest example_Unmarshal server_503) =
     Returned (503, Some unavailable_body,
       Some (Error (''Service Unavailable'' @ [CHR 0x0A] @ ''try later'')))
   \<and> fst (performRequest (\<lambda>body. Inl (Error ''unexpected end of JSON input'')) server_503) =
     Returned (503, None, Some (Error ''unexpected end of JSON input''))"
  using
    exhausted_retries_report_the_last_body [where client_Do = server_503
      and r = "\<lparr>StatusCode = 503, Body = Inr unavailable_body\<rparr>" and body = unavailable_body
      and json_Unmarshal = example_Unmarshal]
    exhausted_retries_report_the_last_body [where client_Do = server_503
      and r = "\<lparr>StatusCode = 503, Body = Inr unavailable_body\<rparr>" and body = unavailable_body
      and json_Unmarshal = "\<lambda>body. Inl (Error ''unexpected end of JSON input'')"]
  by (simp add: server_503_def example_Unmarshal_def isRetry_def)

section \<open>Fetching the secrets\<close>

lemma readFallbackFile_result:
  "fst (readFallbackFile P path w) =
     (case fs_read w path of
        Inl err \<Rightarrow> Fatal err
      | Inr data \<Rightarrow> (case P data of Inl err \<Rightarrow> Fatal err | Inr secrets \<Rightarrow> Returned secrets))"
  by (simp add: readFallbackFile_def ioutil_ReadFile_def log_event_def utils_Err_def
      split: sum.splits)

lemma readFallbackFile_no_network:
  "filter is_network_call (trace (snd (readFallbackFile P path w))) =
   filter is_network_call (trace w)"
  by (simp add: readFallbackFile_def ioutil_ReadFile_def log_event_def utils_Err_def
      split: sum.splits)

text \<open>
  Claim C1, as stated, fails: with \<open>fallbackOnly\<close> set and no fallback path configured
  (the empty path) the guard of line 89 does not hold, \<open>api.GetDeploySecrets\<close> is
  called, and the secrets returned are those of the network response.
\<close>

theorem fallback_only_without_path_counterexample:
  "getSecrets api_up example_Parse example_config '''' False True empty_disk =
     (Returned [''API_KEY'' \<mapsto> ''y''],
      empty_disk\<lparr>trace := [NetworkCall ''dp.st.key'' ''backend'' ''dev'']\<rparr>)
   \<and> filter is_network_call
        (trace (snd (getSecrets api_up example_Parse example_config '''' False True empty_disk))) \<noteq> []"
  by (simp add: getSecrets_def api_up_def example_Parse_def example_config_def empty_disk_def
      log_event_def)

text \<open>
  Claim C1, amended. For every invocation of the secret fetch with \<open>fallbackOnly\<close> set
  and a fallback path configured (a non-empty path), no network call is performed: the
  fetch is \<open>readFallbackFile\<close> at that path, whatever \<open>api.GetDeploySecrets\<close> would
  have returned, and its result is what reading the file at the path and parsing its
  content give (a failure of either is fatal).
\<close>

theorem fallback_only_skips_the_network:
  "fallbackPath \<noteq> '''' \<longrightarrow>
     getSecrets GetDeploySecrets ParseDeploySecrets localConfig fallbackPath fallbackReadonly True w =
       readFallbackFile ParseDeploySecrets fallbackPath w
   \<and> filter is_network_call
        (trace (snd (getSecrets GetDeploySecrets ParseDeploySecrets localConfig fallbackPath
           fallbackReadonly True w))) =
       filter is_network_call (trace w)
   \<and> fst (getSecrets GetDeploySecrets ParseDeploySecrets localConfig fallbackPath
        fallbackReadonly True w) =
       (case fs_read w fallbackPath of
          Inl err \<Rightarrow> Fatal err
        | Inr data \<Rightarrow>
            (case ParseDeploySecrets data of
               Inl err \<Rightarrow> Fatal err
             | Inr secrets \<Rightarrow> Returned secrets))"
  by (simp add: getSecrets_def readFallbackFile_result readFallbackFile_no_network)

theorem fallback_only_skips_the_network_witness:
  "getSecrets api_down example_Parse example_config ''fallback.json'' False True disk_with_fallback =
     (Returned [''API_KEY'' \<mapsto> ''y''],
      disk_with_fallback\<lparr>trace := [Println ''Using fallback file'', ReadFile ''fallback.json'']\<rparr>)
   \<and> filter is_network_call
        (trace (snd (getSecrets api_down example_Parse example_config ''fallback.json'' False True
           disk_with_fallback))) = []"
  using fallback_only_skips_the_network [where fallbackPath = "''fallback.json''"
      and GetDeploySecrets = api_down and ParseDeploySecrets = example_Parse
      and localConfig = example_config and fallbackReadonly = False and w = disk_with_fallback]
  by (simp add: readFallbackFile_def ioutil_ReadFile_def log_event_def disk_with_fallback_def
      example_Parse_def)

text \<open>
  Claim C5, as stated, fails: with a fallback path configured, \<open>fallbackReadonly\<close> false
  and a successful fetch, a write of the fallback file that fails ends the invocation with
  that error; the secrets of the fetched payload are not returned.
\<close>

theorem write_failure_is_fatal_counterexample:
  "getSecrets api_up example_Parse example_config ''fallback.json'' False False readonly_disk =
     (Fatal (Error ''permission denied''),
      readonly_disk\<lparr>trace := [NetworkCall ''dp.st.key'' ''backend'' ''dev'',
        WriteFile ''fallback.json'' api_payload 384, Println ''Unable to write fallback file'']\<rparr>)
   \<and> fst (getSecrets api_up example_Parse example_config ''fallback.json'' False False readonly_disk)
       \<noteq> Returned [''API_KEY'' \<mapsto> ''y'']"
  by (simp add: getSecrets_def api_up_def example_Parse_def example_config_def readonly_disk_def
      log_event_def ioutil_WriteFile_def utils_Err_def Let_def)

text \<open>
  Claim C5, amended. For every successful fetch with a fallback path configured and
  \<open>fallbackReadonly\<close> false, the payload is written to the fallback file. If the write
  succeeds, the file reads as the payload afterwards and the fetch parses the payload and
  returns the secrets mapping (a payload that does not parse is fatal). If the write
  fails, "Unable to write fallback file" is printed and the failure is fatal: the
  invocation ends with the error of the write and returns no secrets.
\<close>

theorem fetched_payload_is_written:
  "GetDeploySecrets (Key localConfig) (Project localConfig) (Config localConfig) = (resp, None)
     \<and> fallbackPath \<noteq> '''' \<longrightarrow>
   (fs_write_fault w fallbackPath = None \<longrightarrow>
      fst (getSecrets GetDeploySecrets ParseDeploySecrets localConfig fallbackPath False False w) =
        (case ParseDeploySecrets resp of Inl err \<Rightarrow> Fatal err | Inr secrets \<Rightarrow> Returned secrets)
    \<and> fs_read (snd (getSecrets GetDeploySecrets ParseDeploySecrets localConfig fallbackPath
          False False w)) fallbackPath = Inr resp
    \<and> trace (snd (getSecrets GetDeploySecrets ParseDeploySecrets localConfig fallbackPath
          False False w)) =
        trace w @
          [NetworkCall (Key localConfig) (Project localConfig) (Config localConfig),
           WriteFile fallbackPath resp 384] @
          (case ParseDeploySecrets resp of Inl err \<Rightarrow> [Println ''Unable to parse response'']
           | Inr secrets \<Rightarrow> []))
   \<and> (\<forall>fault. fs_write_fault w fallbackPath = Some fault \<longrightarrow>
      fst (getSecrets GetDeploySecrets ParseDeploySecrets localConfig fallbackPath False False w) =
        Fatal (fault_error fault)
    \<and> trace (snd (getSecrets GetDeploySecrets ParseDeploySecrets localConfig fallbackPath
          False False w)) =
        trace w @
          [NetworkCall (Key localConfig) (Project localConfig) (Config localConfig),
           WriteFile fallbackPath resp 384, Println ''Unable to write fallback file''])"
proof (intro impI conjI allI)
  assume a: "GetDeploySecrets (Key localConfig) (Project localConfig) (Config localConfig) = (resp, None)
     \<and> fallbackPath \<noteq> ''''"
  {
    assume n: "fs_write_fault w fallbackPath = None"
    show "fst (getSecrets GetDeploySecrets ParseDeploySecrets localConfig fallbackPath False False w) =
        (case ParseDeploySecrets resp of Inl err \<Rightarrow> Fatal err | Inr secrets \<Rightarrow> Returned secrets)"
      using a n by (simp add: getSecrets_def ioutil_WriteFile_def log_event_def utils_Err_def
          os_OpenFile_trunc_def file_Write_def Let_def split: sum.splits)
    show "fs_read (snd (getSecrets GetDeploySecrets ParseDeploySecrets localConfig fallbackPath
          False False w)) fallbackPath = Inr resp"
      using a n by (simp add: getSecrets_def ioutil_WriteFile_def log_event_def utils_Err_def
          os_OpenFile_trunc_def file_Write_def Let_def split: sum.splits)
    show "trace (snd (getSecrets GetDeploySecrets ParseDeploySecrets localConfig fallbackPath
          False False w)) =
        trace w @
          [NetworkCall (Key localConfig) (Project localConfig) (Config localConfig),
           WriteFile fallbackPath resp 384] @
          (case ParseDeploySecrets resp of Inl err \<Rightarrow> [Println ''Unable to parse response'']
           | Inr secrets \<Rightarrow> [])"
      using a n by (simp add: getSecrets_def ioutil_WriteFile_def log_event_def utils_Err_def
          os_OpenFile_trunc_def file_Write_def Let_def split: sum.splits)
  }
  fix fault
  assume f: "fs_write_fault w fallbackPath = Some fault"
  show "fst (getSecrets GetDeploySecrets ParseDeploySecrets localConfig fallbackPath False False w) =
        Fatal (fault_error fault)"
    using a f by (cases fault) (simp_all add: getSecrets_def ioutil_WriteFile_def log_event_def
        utils_Err_def os_OpenFile_trunc_def Let_def)
  show "trace (snd (getSecrets GetDeploySecrets ParseDeploySecrets localConfig fallbackPath
          False False w)) =
        trace w @
          [NetworkCall (Key localConfig) (Project localConfig) (Config localConfig),
           WriteFile fallbackPath resp 384, Println ''Unable to write fallback file'']"
    using a f by (cases fault) (simp_all add: getSecrets_def ioutil_WriteFile_def log_event_def
        utils_Err_def os_OpenFile_trunc_def Let_def)
qed

theorem fetched_payload_is_written_witness:
  "fst (getSecrets api_up example_Parse example_config ''fallback.json'' False False empty_disk) =
     Returned [''API_KEY'' \<mapsto> ''y'']
   \<and> fs_read (snd (getSecrets api_up example_Parse example_config ''fallback.json'' False False
        empty_disk)) ''fallback.json'' = Inr api_payload
   \<and> trace (snd (getSecrets api_up example_Parse example_config ''fallback.json'' False False
        empty_disk)) =
       [NetworkCall ''dp.st.key'' ''backend'' ''dev'', WriteFile ''fallback.json'' api_payload 384]
   \<and> fst (getSecrets api_up example_Parse example_config ''fallback.json'' False False
        readonly_disk) = Fatal (Error ''permission denied'')
   \<and> trace (snd (getSecrets api_up example_Parse example_config ''fallback.json'' False False
        readonly_disk)) =
       [NetworkCall ''dp.st.key'' ''backend'' ''dev'', WriteFile ''fallback.json'' api_payload 384,
        Println ''Unable to write fallback file'']"
  using
    fetched_payload_is_written [where GetDeploySecrets = api_up and localConfig = example_config
      and resp = api_payload and fallbackPath = "''fallback.json''" and w = empty_disk
      and ParseDeploySecrets = example_Parse]
    fetched_payload_is_written [where GetDeploySecrets = api_up and localConfig = example_config
      and resp = api_payload and fallbackPath = "''fallback.json''" and w = readonly_disk
      and ParseDeploySecrets = example_Parse]
  by (simp add: api_up_def example_config_def empty_disk_def readonly_disk_def example_Parse_def)

text \<open>
  Claim C8. For every fetch whose call of \<open>api.GetDeploySecrets\<close> returns an error: if
  a fallback path is configured, the fetch goes on as \<open>readFallbackFile\<close> at that path,
  so the fallback file is read and parsed and its secrets are returned (a file that cannot
  be read or parsed is fatal); if no fallback path is configured, the error of the fetch
  is fatal and no file is read.
\<close>

theorem failed_fetch_falls_back:
  "GetDeploySecrets (Key localConfig) (Project localConfig) (Config localConfig) = (resp, Some e) \<longrightarrow>
   (fallbackPath \<noteq> '''' \<and> \<not> fallbackOnly \<longrightarrow>
      getSecrets GetDeploySecrets ParseDeploySecrets localConfig fallbackPath fallbackReadonly
          fallbackOnly w =
        readFallbackFile ParseDeploySecrets fallbackPath
          (log_event (NetworkCall (Key localConfig) (Project localConfig) (Config localConfig)) w)
      \<and> fst (getSecrets GetDeploySecrets ParseDeploySecrets localConfig fallbackPath
            fallbackReadonly fallbackOnly w) =
          (case fs_read w fallbackPath of
             Inl err \<Rightarrow> Fatal err
           | Inr data \<Rightarrow>
               (case ParseDeploySecrets data of
                  Inl err \<Rightarrow> Fatal err
                | Inr secrets \<Rightarrow> Returned secrets)))
   \<and> (fallbackPath = '''' \<longrightarrow>
      getSecrets GetDeploySecrets ParseDeploySecrets localConfig fallbackPath fallbackReadonly
          fallbackOnly w =
        (Fatal e,
         w\<lparr>trace := trace w @
            [NetworkCall (Key localConfig) (Project localConfig) (Config localConfig)]\<rparr>)
      \<and> filter is_file_read
           (trace (snd (getSecrets GetDeploySecrets ParseDeploySecrets localConfig fallbackPath
              fallbackReadonly fallbackOnly w))) =
          filter is_file_read (trace w))"
  by (simp add: getSecrets_def readFallbackFile_result log_event_def utils_Err_def)

theorem failed_fetch_falls_back_witness:
  "getSecrets api_down example_Parse example_config ''fallback.json'' False False disk_with_fallback =
     (Returned [''API_KEY'' \<mapsto> ''y''],
      disk_with_fallback\<lparr>trace := [NetworkCall ''dp.st.key'' ''backend'' ''dev'',
        Println ''Using fallback file'', ReadFile ''fallback.json'']\<rparr>)
   \<and> getSecrets api_down example_Parse example_config '''' False False disk_with_fallback =
     (Fatal (Error ''connection refused''),
      disk_with_fallback\<lparr>trace := [NetworkCall ''dp.st.key'' ''backend'' ''dev'']\<rparr>)"
  using
    failed_fetch_falls_back [where GetDeploySecrets = api_down and localConfig = example_config
      and resp = "[]" and e = "Error ''connection refused''" and fallbackPath = "''fallback.json''"
      and fallbackOnly = False and fallbackReadonly = False and w = disk_with_fallback
      and ParseDeploySecrets = example_Parse]
    failed_fetch_falls_back [where GetDeploySecrets = api_down and localConfig = example_config
      and resp = "[]" and e = "Error ''connection refused''" and fallbackPath = "''''"
      and fallbackOnly = False and fallbackReadonly = False and w = disk_with_fallback
      and ParseDeploySecrets = example_Parse]
  by (simp add: api_down_def example_config_def disk_with_fallback_def example_Parse_def
      readFallbackFile_def ioutil_ReadFile_def log_event_def)

section \<open>Writing the fallback file\<close>






section \<open>The environment of the child\<close>

lemma addKey_iff: "addKey keys name \<longleftrightarrow> name \<notin> set keys"
  by (induction keys) auto

lemma inject_eq:
  "inject env secrets =
     env @ map (\<lambda>(name, val). name @ ''='' @ val)
             (filter (\<lambda>(name, val). name \<notin> set excludedKeys) secrets)"
  by (induction secrets arbitrary: env) (auto simp: addKey_iff)

lemma entry_name_fmt: "CHR ''='' \<notin> set name \<Longrightarrow> entry_name (name @ CHR ''='' # val) = name"
  by (induction name) (auto simp: entry_name_def)

lemma entry_value_fmt: "CHR ''='' \<notin> set name \<Longrightarrow> entry_value (name @ CHR ''='' # val) = val"
  by (induction name) (auto simp: entry_value_def)

lemma child_getenv_append:
  "child_getenv (xs @ ys) name =
     (case child_getenv ys name of Some v \<Rightarrow> Some v | None \<Rightarrow> child_getenv xs name)"
  by (induction xs) (auto split: option.splits)

lemma child_getenv_fmt:
  "distinct (map fst kvs) \<Longrightarrow> \<forall>(name, val) \<in> set kvs. CHR ''='' \<notin> set name \<Longrightarrow>
   child_getenv (map (\<lambda>(name, val). name @ ''='' @ val) kvs) name = map_of kvs name"
proof (induction kvs)
  case Nil
  then show ?case by simp
next
  case (Cons kv kvs)
  obtain k v where kv: "kv = (k, v)" by (cases kv)
  from Cons.prems kv have k: "CHR ''='' \<notin> set k" and nk: "k \<notin> fst ` set kvs" by auto
  from Cons have ih: "child_getenv (map (\<lambda>(name, val). name @ ''='' @ val) kvs) name = map_of kvs name"
    by simp
  show ?case
  proof (cases "k = name")
    case True
    with nk have "map_of kvs name = None" by (simp add: map_of_eq_None_iff)
    with True show ?thesis
      using ih k by (simp add: kv entry_name_fmt entry_value_fmt)
  next
    case False
    then show ?thesis
      using ih k by (simp add: kv entry_name_fmt split: option.splits)
  qed
qed

lemma map_of_filter_keys:
  "map_of (filter (\<lambda>(name, val). P name) kvs) name = (if P name then map_of kvs name else None)"
  by (induction kvs) auto

text \<open>
  Claim C7, as stated, fails: a secret whose name is \<open>PATH=/evil\<close> is not one of the
  excluded keys, so its entry \<open>PATH=/evil=x\<close> is appended; the name of that entry is
  PATH, and the child sees PATH as \<open>/evil=x\<close> instead of the old value.
\<close>

theorem injected_name_counterexample:
  "inject example_env evil_secrets =
     [''PATH=/usr/bin'', ''API_KEY=old'', ''LANG=C'', ''PATH=/evil=x'']
   \<and> entry_name (last (inject example_env evil_secrets)) = ''PATH''
   \<and> child_getenv example_env ''PATH'' = Some ''/usr/bin''
   \<and> child_getenv (inject example_env evil_secrets) ''PATH'' = Some ''/evil=x''"
  by (simp add: example_env_def evil_secrets_def excludedKeys_def entry_name_def entry_value_def)

text \<open>
  Claim C7, amended. For every environment of the process and every fetched secrets
  mapping, in whatever order the range visits it: the environment handed to the child is
  the old environment, unchanged and in place, followed by one entry \<open>name=value\<close> for
  each secret whose name is not PATH, PS1 or HOME, and by nothing else. When no name of
  a secret contains \<open>=\<close> (the names of a mapping are distinct), no injected entry is
  named PATH, PS1 or HOME; the child, for which a later entry wins, sees every secret
  that is not reserved at its fetched value (so it overrides an old variable of the same
  name), and sees PATH, PS1 and HOME as they were.
\<close>

theorem injected_environment:
  "inject env secrets =
     env @ map (\<lambda>(name, val). name @ ''='' @ val)
             (filter (\<lambda>(name, val). name \<notin> {''PATH'', ''PS1'', ''HOME''}) secrets)
   \<and> take (length env) (inject env secrets) = env
   \<and> (\<forall>e \<in> set (drop (length env) (inject env secrets)).
        \<exists>name val. (name, val) \<in> set secrets \<and> name \<notin> {''PATH'', ''PS1'', ''HOME''}
          \<and> e = name @ ''='' @ val)
   \<and> (\<forall>(name, val) \<in> set secrets. name \<notin> {''PATH'', ''PS1'', ''HOME''} \<longrightarrow>
        name @ ''='' @ val \<in> set (drop (length env) (inject env secrets)))
   \<and> (distinct (map fst secrets) \<and> (\<forall>(name, val) \<in> set secrets. CHR ''='' \<notin> set name) \<longrightarrow>
        (\<forall>e \<in> set (drop (length env) (inject env secrets)).
           entry_name e \<notin> {''PATH'', ''PS1'', ''HOME''})
      \<and> (\<forall>(name, val) \<in> set secrets. name \<notin> {''PATH'', ''PS1'', ''HOME''} \<longrightarrow>
           child_getenv (inject env secrets) name = Some val)
      \<and> (\<forall>name \<in> {''PATH'', ''PS1'', ''HOME''}.
           child_getenv (inject env secrets) name = child_getenv env name))"
proof -
  let ?keep = "\<lambda>(name, val). name \<notin> {''PATH'', ''PS1'', ''HOME''}"
  let ?fmt = "\<lambda>(name, val). name @ ''='' @ val"
  have eq: "inject env secrets = env @ map ?fmt (filter ?keep secrets)"
    by (simp add: inject_eq excludedKeys_def)
  have dr: "drop (length env) (inject env secrets) = map ?fmt (filter ?keep secrets)"
    by (simp add: eq)
  have a: "take (length env) (inject env secrets) = env"
    by (simp add: eq)
  have b: "\<forall>e \<in> set (drop (length env) (inject env secrets)).
        \<exists>name val. (name, val) \<in> set secrets \<and> name \<notin> {''PATH'', ''PS1'', ''HOME''}
          \<and> e = name @ ''='' @ val"
    unfolding dr by auto
  have c: "\<forall>(name, val) \<in> set secrets. name \<notin> {''PATH'', ''PS1'', ''HOME''} \<longrightarrow>
        name @ ''='' @ val \<in> set (drop (length env) (inject env secrets))"
    unfolding dr by force
  have d: "(\<forall>e \<in> set (drop (length env) (inject env secrets)).
           entry_name e \<notin> {''PATH'', ''PS1'', ''HOME''})
      \<and> (\<forall>(name, val) \<in> set secrets. name \<notin> {''PATH'', ''PS1'', ''HOME''} \<longrightarrow>
           child_getenv (inject env secrets) name = Some val)
      \<and> (\<forall>name \<in> {''PATH'', ''PS1'', ''HOME''}.
           child_getenv (inject env secrets) name = child_getenv env name)"
    if dist: "distinct (map fst secrets)"
      and names: "\<forall>(name, val) \<in> set secrets. CHR ''='' \<notin> set name"
  proof -
    have d1: "distinct (map fst (filter ?keep secrets))"
      using dist by (simp add: distinct_map_filter)
    have d2: "\<forall>(name, val) \<in> set (filter ?keep secrets). CHR ''='' \<notin> set name"
      using names by auto
    have look: "child_getenv (inject env secrets) name =
        (case (if name \<notin> {''PATH'', ''PS1'', ''HOME''} then map_of secrets name else None) of
           Some v \<Rightarrow> Some v | None \<Rightarrow> child_getenv env name)" for name
      unfolding eq child_getenv_append child_getenv_fmt [OF d1 d2]
      using map_of_filter_keys [of "\<lambda>name. name \<notin> {''PATH'', ''PS1'', ''HOME''}" secrets name]
      by simp
    have "entry_name e \<notin> {''PATH'', ''PS1'', ''HOME''}"
      if "e \<in> set (drop (length env) (inject env secrets))" for e
    proof -
      from that b obtain name val where nv: "(name, val) \<in> set secrets"
        "name \<notin> {''PATH'', ''PS1'', ''HOME''}" "e = name @ ''='' @ val"
        by blast
      from nv(1) names have "CHR ''='' \<notin> set name" by auto
      then have "entry_name e = name" by (simp add: nv(3) entry_name_fmt)
      with nv(2) show ?thesis by simp
    qed
    moreover have "child_getenv (inject env secrets) name = Some val"
      if "(name, val) \<in> set secrets" "name \<notin> {''PATH'', ''PS1'', ''HOME''}" for name val
    proof -
      from that(1) dist have "map_of secrets name = Some val" by simp
      with that(2) show ?thesis by (simp add: look)
    qed
    moreover have "child_getenv (inject env secrets) name = child_getenv env name"
      if "name \<in> {''PATH'', ''PS1'', ''HOME''}" for name
      using that by (simp add: look)
    ultimately show ?thesis by blast
  qed
  from eq a b c d show ?thesis by blast
qed

theorem injected_environment_witness:
  "inject example_env example_secrets =
     [''PATH=/usr/bin'', ''API_KEY=old'', ''LANG=C'', ''API_KEY=y'', ''DB=z'']
   \<and> map entry_name (drop (length example_env) (inject example_env example_secrets)) =
       [''API_KEY'', ''DB'']
   \<and> child_getenv (inject example_env example_secrets) ''API_KEY'' = Some ''y''
   \<and> child_getenv (inject example_env example_secrets) ''PATH'' = Some ''/usr/bin''"
  using injected_environment [of example_env example_secrets]
  by (simp add: example_env_def example_secrets_def entry_name_def entry_value_def)

section \<open>Decoding the secrets\<close>

lemma assert_map_Inr_iff: "(\<exists>m. assert_map v = Inr m) \<longleftrightarrow> (\<exists>m. v = GMap m)"
  by (cases v) simp_all

lemma computed_step_ok:
  "has_raw_and_computed secret \<Longrightarrow>
   \<exists>c'. computed_loop ((key, secret) # rest) computed = computed_loop rest c'"
  by (cases secret) (auto split: go_value.splits)

lemma computed_step_bad:
  "\<not> has_raw_and_computed secret \<Longrightarrow>
   \<exists>p. computed_loop ((key, secret) # rest) computed = Inl p"
  by (cases secret) (auto split: go_value.splits sum.splits)

lemma computed_loop_returns_iff:
  "(\<exists>result. computed_loop secrets computed = Inr result) \<longleftrightarrow>
   (\<forall>(key, secret) \<in> set secrets. has_raw_and_computed secret)"
proof (induction secrets arbitrary: computed)
  case Nil
  then show ?case by simp
next
  case (Cons kv secrets)
  obtain key secret where kv: "kv = (key, secret)" by (cases kv)
  show ?case
  proof (cases "has_raw_and_computed secret")
    case True
    from computed_step_ok [OF True, of key secrets computed] obtain c' where
      "computed_loop ((key, secret) # secrets) computed = computed_loop secrets c'" by blast
    with True Cons.IH [of c'] show ?thesis by (simp add: kv)
  next
    case False
    from computed_step_bad [OF False, of key secrets computed] obtain p where
      "computed_loop ((key, secret) # secrets) computed = Inl p" by blast
    with False show ?thesis by (simp add: kv)
  qed
qed

lemma computed_loop_cases:
  "(\<exists>p. computed_loop secrets computed = Inl p) \<longleftrightarrow>
   \<not> (\<forall>(key, secret) \<in> set secrets. has_raw_and_computed secret)"
  using computed_loop_returns_iff [of secrets computed]
  by (cases "computed_loop secrets computed") auto

text \<open>
  Claim C10. For a response body that is valid JSON and decodes to an object,
  \<open>GetAPISecrets\<close> ends in a runtime panic (a failed type assertion), not in a returned
  value or a reported error, exactly when the object has no \<open>variables\<close> that is an
  object all of whose entries are objects with strings \<open>raw\<close> and \<open>computed\<close>. In
  particular it panics for every object without \<open>variables\<close>, so its decoding is not
  total on valid JSON.
\<close>

theorem GetAPISecrets_panics_on_valid_json:
  "json_decode resp = Inr (GMap result) \<longrightarrow>
     ((\<exists>p. fst (GetAPISecrets (resp, None) json_decode w) = Panic p) \<longleftrightarrow>
        \<not> (\<exists>secrets. map_of result ''variables'' = Some (GMap secrets)
              \<and> (\<forall>(key, secret) \<in> set secrets. has_raw_and_computed secret)))
   \<and> (map_of result ''variables'' = None \<longrightarrow>
        GetAPISecrets (resp, None) json_decode w =
          (Panic ''interface conversion: interface {} is nil, not map[string]interface {}'', w))"
proof (intro impI conjI)
  assume d: "json_decode resp = Inr (GMap result)"
  show "(\<exists>p. fst (GetAPISecrets (resp, None) json_decode w) = Panic p) \<longleftrightarrow>
        \<not> (\<exists>secrets. map_of result ''variables'' = Some (GMap secrets)
              \<and> (\<forall>(key, secret) \<in> set secrets. has_raw_and_computed secret))"
  proof (cases "\<exists>secrets. map_of result ''variables'' = Some (GMap secrets)")
    case True
    then obtain secrets where s: "map_of result ''variables'' = Some (GMap secrets)" by blast
    show ?thesis
    proof (cases "computed_loop secrets Map.empty")
      case (Inl p)
      then have "\<not> (\<forall>(key, secret) \<in> set secrets. has_raw_and_computed secret)"
        using computed_loop_cases [of secrets Map.empty] by blast
      with Inl show ?thesis
        by (simp add: GetAPISecrets_def json_Unmarshal_map_def d index_map_def s)
    next
      case (Inr computed)
      then have "\<forall>(key, secret) \<in> set secrets. has_raw_and_computed secret"
        using computed_loop_returns_iff [of secrets Map.empty] by blast
      with Inr show ?thesis
        by (simp add: GetAPISecrets_def json_Unmarshal_map_def d index_map_def s)
    qed
  next
    case False
    then have "\<exists>p. assert_map (index_map result ''variables'') = Inl p"
      by (cases "map_of result ''variables''"; cases "index_map result ''variables''")
         (auto simp: index_map_def)
    then obtain p where "assert_map (index_map result ''variables'') = Inl p" by blast
    with False show ?thesis
      by (simp add: GetAPISecrets_def json_Unmarshal_map_def d)
  qed
  assume "map_of result ''variables'' = None"
  then show "GetAPISecrets (resp, None) json_decode w =
      (Panic ''interface conversion: interface {} is nil, not map[string]interface {}'', w)"
    by (simp add: GetAPISecrets_def json_Unmarshal_map_def d index_map_def)
qed

theorem GetAPISecrets_panics_on_valid_json_witness:
  "GetAPISecrets (empty_object_body, None) example_decode empty_disk =
     (Panic ''interface conversion: interface {} is nil, not map[string]interface {}'', empty_disk)
   \<and> (\<exists>p. fst (GetAPISecrets (no_raw_body, None) example_decode empty_disk) = Panic p)
   \<and> GetAPISecrets (no_raw_body, None) example_decode empty_disk =
     (Panic ''interface conversion: interface {} is nil, not string'', empty_disk)"
  using
    GetAPISecrets_panics_on_valid_json [where json_decode = example_decode
      and resp = empty_object_body and result = "[]" and w = empty_disk]
    GetAPISecrets_panics_on_valid_json [where json_decode = example_decode
      and resp = no_raw_body
      and result = "[(''variables'', GMap [(''API_KEY'', GMap [(''computed'', GString ''y'')])])]"
      and w = empty_disk]
  by (simp add: example_decode_def empty_object_body_def no_raw_body_def GetAPISecrets_def
      json_Unmarshal_map_def index_map_def)

end
